theory Spec2Isabelle
  imports Complex_Main
begin

section \<open>Numbers, vectors and matrices\<close>

text \<open>
  Python floats and the scalars of the symbolic engine are modelled by \<^typ>\<open>real\<close>: the
  expressions built by the model denote real functions of the state and the control, and
  a decimal literal of the source is the rational it is written as. This is the exact
  value of an expression; its evaluation on doubles, where rounding decides a property,
  is modelled apart (see the section on double precision). Vectors and matrices
  whose shape is a literal of the source (the \<open>shape=(3,1)\<close> and \<open>shape=(4,1)\<close> symbols,
  the 3x3 and 4x4 matrices written row by row) carry that shape in their type. A matrix
  is the tuple of its rows.
\<close>

type_synonym vec3 = "real \<times> real \<times> real"
type_synonym vec4 = "real \<times> real \<times> real \<times> real"
type_synonym mat3 = "vec3 \<times> vec3 \<times> vec3"
type_synonym mat4 = "vec4 \<times> vec4 \<times> vec4 \<times> vec4"

fun dot3 :: "vec3 \<Rightarrow> vec3 \<Rightarrow> real" where
  "dot3 (x0, x1, x2) (y0, y1, y2) = x0 * y0 + x1 * y1 + x2 * y2"

fun dot4 :: "vec4 \<Rightarrow> vec4 \<Rightarrow> real" where
  "dot4 (x0, x1, x2, x3) (y0, y1, y2, y3) = x0 * y0 + x1 * y1 + x2 * y2 + x3 * y3"

text \<open>\<open>A @ x\<close> for a 3x3 matrix and a 3-vector, and for a 4x4 matrix and a 4-vector.\<close>

fun mtimes3 :: "mat3 \<Rightarrow> vec3 \<Rightarrow> vec3" where
  "mtimes3 (r0, r1, r2) x = (dot3 r0 x, dot3 r1 x, dot3 r2 x)"

fun mtimes4 :: "mat4 \<Rightarrow> vec4 \<Rightarrow> vec4" where
  "mtimes4 (r0, r1, r2, r3) x = (dot4 r0 x, dot4 r1 x, dot4 r2 x, dot4 r3 x)"

fun transpose3 :: "mat3 \<Rightarrow> mat3" where
  "transpose3 ((a00, a01, a02), (a10, a11, a12), (a20, a21, a22)) =
     ((a00, a10, a20), (a01, a11, a21), (a02, a12, a22))"


text \<open>\<open>A @ B\<close> for two 3x3 matrices: entry (i, j) is row i of A times column j of B.\<close>

fun mmul3 :: "mat3 \<Rightarrow> mat3 \<Rightarrow> mat3" where
  "mmul3 (r0, r1, r2) B =
     (case transpose3 B of (c0, c1, c2) \<Rightarrow>
        ((dot3 r0 c0, dot3 r0 c1, dot3 r0 c2),
         (dot3 r1 c0, dot3 r1 c1, dot3 r1 c2),
         (dot3 r2 c0, dot3 r2 c1, dot3 r2 c2)))"

definition eye3 :: mat3 where
  "eye3 = ((1, 0, 0), (0, 1, 0), (0, 0, 1))"

fun scale3 :: "real \<Rightarrow> vec3 \<Rightarrow> vec3" where
  "scale3 k (x0, x1, x2) = (k * x0, k * x1, k * x2)"

fun scale4 :: "real \<Rightarrow> vec4 \<Rightarrow> vec4" where
  "scale4 k (x0, x1, x2, x3) = (k * x0, k * x1, k * x2, k * x3)"

fun mscale4 :: "real \<Rightarrow> mat4 \<Rightarrow> mat4" where
  "mscale4 k (r0, r1, r2, r3) = (scale4 k r0, scale4 k r1, scale4 k r2, scale4 k r3)"


fun add3 :: "vec3 \<Rightarrow> vec3 \<Rightarrow> vec3" where
  "add3 (x0, x1, x2) (y0, y1, y2) = (x0 + y0, x1 + y1, x2 + y2)"

fun sub3 :: "vec3 \<Rightarrow> vec3 \<Rightarrow> vec3" where
  "sub3 (x0, x1, x2) (y0, y1, y2) = (x0 - y0, x1 - y1, x2 - y2)"

fun div3 :: "vec3 \<Rightarrow> real \<Rightarrow> vec3" where
  "div3 (x0, x1, x2) k = (x0 / k, x1 / k, x2 / k)"

text \<open>
  Division of a vector by a scalar. A division by zero has no real value (the engine
  yields NaN or an infinity there): it is the result \<open>None\<close>.
\<close>

fun vdiv3 :: "vec3 \<Rightarrow> real \<Rightarrow> vec3 option" where
  "vdiv3 x k = (if k = 0 then None else Some (div3 x k))"

text \<open>\<open>ca.cross\<close> of two 3-vectors.\<close>

fun cross :: "vec3 \<Rightarrow> vec3 \<Rightarrow> vec3" where
  "cross (x0, x1, x2) (y0, y1, y2) =
     (x1 * y2 - x2 * y1, x2 * y0 - x0 * y2, x0 * y1 - x1 * y0)"

text \<open>\<open>ca.norm_2\<close> of a 4-vector.\<close>

fun norm_2 :: "vec4 \<Rightarrow> real" where
  "norm_2 (x0, x1, x2, x3) = sqrt (x0\<^sup>2 + x1\<^sup>2 + x2\<^sup>2 + x3\<^sup>2)"

fun vdiv4 :: "vec4 \<Rightarrow> real \<Rightarrow> vec4 option" where
  "vdiv4 (x0, x1, x2, x3) k =
     (if k = 0 then None else Some (x0 / k, x1 / k, x2 / k, x3 / k))"

text \<open>\<open>ca.diag\<close> of a list of three numbers.\<close>

fun ca_diag :: "vec3 \<Rightarrow> mat3" where
  "ca_diag (d0, d1, d2) = ((d0, 0, 0), (0, d1, 0), (0, 0, d2))"

fun det3 :: "mat3 \<Rightarrow> real" where
  "det3 ((a00, a01, a02), (a10, a11, a12), (a20, a21, a22)) =
     a00 * (a11 * a22 - a12 * a21) - a01 * (a10 * a22 - a12 * a20)
       + a02 * (a10 * a21 - a11 * a20)"

text \<open>
  \<open>np.linalg.inv\<close> on a 3x3 matrix, by its contract over the reals: the inverse matrix,
  and the \<open>LinAlgError\<close> of a singular matrix as \<open>None\<close>. The inverse is the adjugate
  divided by the determinant.
\<close>

fun linalg_inv :: "mat3 \<Rightarrow> mat3 option" where
  "linalg_inv ((a00, a01, a02), (a10, a11, a12), (a20, a21, a22)) =
     (let A = ((a00, a01, a02), (a10, a11, a12), (a20, a21, a22)); dt = det3 A in
      if dt = 0 then None
      else Some
        (div3 (a11 * a22 - a12 * a21, a02 * a21 - a01 * a22, a01 * a12 - a02 * a11) dt,
         div3 (a12 * a20 - a10 * a22, a00 * a22 - a02 * a20, a02 * a10 - a00 * a12) dt,
         div3 (a10 * a21 - a11 * a20, a01 * a20 - a00 * a21, a00 * a11 - a01 * a10) dt))"

text \<open>
  \<open>ca.solve A y\<close> on a 3x3 system, by its contract over the reals: the solution of
  \<open>A x = y\<close> when it is unique (Cramer's rule), \<open>None\<close> when the matrix is singular.
\<close>

fun ca_solve :: "mat3 \<Rightarrow> vec3 \<Rightarrow> vec3 option" where
  "ca_solve ((a00, a01, a02), (a10, a11, a12), (a20, a21, a22)) (y0, y1, y2) =
     (let dt = det3 ((a00, a01, a02), (a10, a11, a12), (a20, a21, a22)) in
      if dt = 0 then None
      else Some
        (det3 ((y0, a01, a02), (y1, a11, a12), (y2, a21, a22)) / dt,
         det3 ((a00, y0, a02), (a10, y1, a12), (a20, y2, a22)) / dt,
         det3 ((a00, a01, y0), (a10, a11, y1), (a20, a21, y2)) / dt))"


text \<open>The largest distance between two entries at the same place of two 3x3 matrices.\<close>

fun dist3 :: "vec3 \<Rightarrow> vec3 \<Rightarrow> real" where
  "dist3 (x0, x1, x2) (y0, y1, y2) = max \<bar>x0 - y0\<bar> (max \<bar>x1 - y1\<bar> \<bar>x2 - y2\<bar>)"

fun mdist3 :: "mat3 \<Rightarrow> mat3 \<Rightarrow> real" where
  "mdist3 (r0, r1, r2) (s0, s1, s2) = max (dist3 r0 s0) (max (dist3 r1 s1) (dist3 r2 s2))"

text \<open>\<open>ca.DM.eye n\<close> and \<open>ca.diag\<close> of a list, as lists of rows.\<close>

definition DM_eye :: "nat \<Rightarrow> real list list" where
  "DM_eye n = map (\<lambda>i. map (\<lambda>j. if i = j then 1 else 0) [0..<n]) [0..<n]"

definition DM_diag :: "real list \<Rightarrow> real list list" where
  "DM_diag ds =
     map (\<lambda>i. map (\<lambda>j. if i = j then ds ! i else 0) [0..<length ds]) [0..<length ds]"

section \<open>The configuration registry\<close>

text \<open>The Python values handed to \<open>str\<close> by the textual rendering.\<close>

datatype pyobj =
    PyInt int
  | PyFloat real
  | PyBool bool
  | PyStr string
  | PyList "pyobj list"
  | PyNdarray "real list"
  | PyDM "real list list"
  | PyDict "(string \<times> pyobj) list"

record Constants =
  timelimit :: int
  m :: real
  l :: real
  gx :: int
  gy :: int
  gz :: real
  g :: vec3
  Ixx :: real
  Iyy :: real
  Izz :: real
  moment_arm :: vec3
  I :: mat3
  I_diag :: vec3
  I_inv :: mat3
  tcc :: real
  a :: real
  b :: real
  c :: real
  d :: real
  outer_gimbal_range :: "int list"
  inner_gimbal_range :: "real list"
  theta_dot_constraint :: real
  thrust_dot_limit :: real
  hover_thrust :: real
  prop_thrust_constraint :: real
  diff_thrust_constraint :: "real list"
  dt :: real
  x0 :: "real list"
  Q :: "real list list"
  R :: "real list list"
  xr :: "real list"
  ur :: "real list"
  waypoints :: "vec3 list"
  nmpc_rate_constraints :: bool
  mpc_horizon :: int
  spectral_order :: int
  finite_interval_size :: real
  number_intervals :: int
  collocation_degree :: int
  ipopt_settings :: "(string \<times> pyobj) list"

text \<open>
  \<open>Constants.__init__\<close>: every field is a literal or computed from earlier fields, in the
  order of the source. The only step that can fail is the matrix inversion; its error
  ends the construction (\<open>None\<close>).
\<close>

definition Constants_init :: "Constants option" where
  "Constants_init =
     (let timelimit = 1;
          m = 1.5;
          l = 0.18;
          gx = 0;
          gy = 0;
          gz = - 9.81;
          g = (real_of_int gx, real_of_int gy, gz);
          Ixx = 0.06;
          Iyy = 0.06;
          Izz = 0.012;
          moment_arm = (0, 0, - l / 2);
          I = ((Ixx, 0, 0), (0, Iyy, 0), (0, 0, Izz));
          I_diag = (Ixx, Iyy, Izz)
      in case linalg_inv I of
           None \<Rightarrow> None
         | Some inverse_of_I \<Rightarrow>
             (let I_inv = inverse_of_I;
                  tcc = 1.6;
                  a = 1.327 * tcc;
                  b = 0.284 * tcc;
                  c = - 0.015 * tcc;
                  d = 0.1;
                  hover_thrust = 2.529
              in Some \<lparr>
                   timelimit = timelimit, m = m, l = l, gx = gx, gy = gy, gz = gz, g = g,
                   Ixx = Ixx, Iyy = Iyy, Izz = Izz, moment_arm = moment_arm,
                   I = I, I_diag = I_diag, I_inv = I_inv,
                   tcc = tcc, a = a, b = b, c = c, d = d,
                   outer_gimbal_range = [- 20, 20],
                   inner_gimbal_range = [- 13.5, 13.5],
                   theta_dot_constraint = 6.16,
                   thrust_dot_limit = 20.0,
                   hover_thrust = hover_thrust,
                   prop_thrust_constraint = 50.0,
                   diff_thrust_constraint = [- 0.8, 0.8],
                   dt = 0.02,
                   x0 = [0.0, 0.0, 0.0, 0.0, 0.0, 0.0, 0.0, 0.0, 0.0, 1.0, 0.0, 0.0, 0.0],
                   Q = DM_eye 13,
                   R = DM_diag [0.03, 0.03, 1, 0.03],
                   xr = [0.0, 0.0, 0.0, 0.0, 0.0, 0.0, 0.0, 0.0, 0.0, 1.0, 0.0, 0.0, 0.0],
                   ur = [0.0, 0.0, hover_thrust, 0.0],
                   waypoints = [(0.0, 0.0, 0.0), (0.0, 0.0, 0.25), (0.0, 0.0, 0.0)],
                   nmpc_rate_constraints = False,
                   mpc_horizon = 100,
                   spectral_order = 6,
                   finite_interval_size = 0.3,
                   number_intervals = 6,
                   collocation_degree = 2,
                   ipopt_settings =
                     [(''ipopt.max_iter'', PyInt 100),
                      (''ipopt.tol'', PyFloat 0.001),
                      (''ipopt.acceptable_tol'', PyFloat 0.0001),
                      (''ipopt.print_level'', PyInt 0),
                      (''ipopt.sb'', PyStr ''yes''),
                      (''print_time'', PyInt 0),
                      (''ipopt.linear_solver'', PyStr ''ma27'')] \<rparr>))"

subsection \<open>The textual rendering\<close>

text \<open>
  A format field \<open>{s:n}\<close> of an f-string, for a string \<open>s\<close>: the string, padded with
  spaces on the right up to \<open>n\<close> characters and never cut.
\<close>

definition fmt :: "string \<Rightarrow> nat \<Rightarrow> string" where
  "fmt s n = s @ replicate (n - length s) (CHR '' '')"

fun tolist :: "vec3 \<Rightarrow> pyobj" where
  "tolist (e0, e1, e2) = PyList [PyFloat e0, PyFloat e1, PyFloat e2]"

fun tolist2 :: "mat3 \<Rightarrow> pyobj" where
  "tolist2 (r0, r1, r2) = PyList [tolist r0, tolist r1, tolist r2]"

fun ndarray :: "vec3 \<Rightarrow> pyobj" where
  "ndarray (e0, e1, e2) = PyNdarray [e0, e1, e2]"

text \<open>
  \<open>Constants.__repr__\<close>. The conversion \<open>str\<close> of Python and of the symbolic engine is a
  parameter: the rendering is determined up to the way each value is printed. The
  method reads the fields of the instance and assigns none, so it is a function from
  the instance to the text.
\<close>

definition Constants_repr :: "(pyobj \<Rightarrow> string) \<Rightarrow> Constants \<Rightarrow> string" where
  "Constants_repr str self =
     ''Constants \<newline>'' @ ''---------------------\<newline>''
     @ ''General constants: \<newline>''
     @ ''-----------------------------------------------\<newline>''
     @ fmt ''flight time:'' 15 @ ''  '' @ fmt (str (PyInt (timelimit self))) 15 @ ''\<newline>''
     @ ''Model related constants: \<newline>''
     @ ''-----------------------------------------------\<newline>''
     @ fmt ''m:'' 10 @ ''  '' @ fmt (str (PyFloat (m self))) 15 @ ''\<newline>''
     @ fmt ''l:'' 10 @ ''  '' @ fmt (str (PyFloat (l self))) 15 @ ''\<newline>''
     @ fmt ''gx:'' 10 @ ''  '' @ fmt (str (PyInt (gx self))) 15 @ ''\<newline>''
     @ fmt ''gy:'' 10 @ ''  '' @ fmt (str (PyInt (gy self))) 15 @ ''\<newline>''
     @ fmt ''gz:'' 10 @ ''  '' @ fmt (str (PyFloat (gz self))) 15 @ ''\<newline>''
     @ fmt ''g:'' 10 @ ''  '' @ fmt (str (tolist (g self))) 15 @ ''\<newline>''
     @ fmt ''Ixx:'' 10 @ ''  '' @ fmt (str (PyFloat (Ixx self))) 15 @ ''\<newline>''
     @ fmt ''Iyy:'' 10 @ ''  '' @ fmt (str (PyFloat (Iyy self))) 15 @ ''\<newline>''
     @ fmt ''Izz:'' 10 @ ''  '' @ fmt (str (PyFloat (Izz self))) 15 @ ''\<newline>''
     @ fmt ''moment arm:'' 20 @ ''  '' @ str (tolist (moment_arm self)) @ ''\<newline>''
     @ fmt ''I_inv:'' 20 @ ''  '' @ str (tolist2 (I_inv self)) @ ''\<newline>''
     @ ''thrust model constants: \<newline>''
     @ ''-----------------------------------------------\<newline>''
     @ fmt ''tcc:'' 10 @ ''  '' @ fmt (str (PyFloat (tcc self))) 15 @ ''\<newline>''
     @ fmt ''a:'' 10 @ ''  '' @ fmt (str (PyFloat (a self))) 15 @ ''\<newline>''
     @ fmt ''b:'' 10 @ ''  '' @ fmt (str (PyFloat (b self))) 15 @ ''\<newline>''
     @ fmt ''c:'' 10 @ ''  '' @ fmt (str (PyFloat (c self))) 15 @ ''\<newline>''
     @ fmt ''d:'' 10 @ ''  '' @ fmt (str (PyFloat (d self))) 15 @ ''\<newline>''
     @ ''Mechanical and hardware constants: \<newline>''
     @ ''-----------------------------------------------\<newline>''
     @ fmt ''outer gimbal range:'' 20 @ ''  ''
         @ str (PyList (map PyInt (outer_gimbal_range self))) @ ''\<newline>''
     @ fmt ''inner gimbal range:'' 20 @ ''  ''
         @ str (PyList (map PyFloat (inner_gimbal_range self))) @ ''\<newline>''
     @ fmt ''theta dot max:'' 20 @ ''  '' @ str (PyFloat (theta_dot_constraint self)) @ ''\<newline>''
     @ fmt ''thrust dot max:'' 20 @ ''  '' @ str (PyFloat (thrust_dot_limit self)) @ ''\<newline>''
     @ fmt ''hover thrust:'' 20 @ ''  '' @ str (PyFloat (hover_thrust self)) @ ''\<newline>''
     @ fmt ''max thrust:'' 20 @ ''  '' @ str (PyFloat (prop_thrust_constraint self)) @ ''\<newline>''
     @ fmt ''max diff thrus:'' 20 @ ''  ''
         @ str (PyList (map PyFloat (diff_thrust_constraint self))) @ ''\<newline>''
     @ ''NMPC constants: \<newline>''
     @ ''-----------------------------------------------\<newline>''
     @ fmt ''dt:'' 10 @ ''  '' @ fmt (str (PyFloat (dt self))) 15 @ ''\<newline>''
     @ fmt ''x0:'' 10 @ ''  '' @ str (PyDM (map (\<lambda>x. [x]) (x0 self))) @ ''\<newline>''
     @ fmt ''Q:'' 10 @ ''  '' @ str (PyDM (Q self)) @ ''\<newline>''
     @ fmt ''R:'' 10 @ ''  '' @ str (PyDM (R self)) @ ''\<newline>''
     @ fmt ''xr:'' 10 @ ''  '' @ str (PyDM (map (\<lambda>x. [x]) (xr self))) @ ''\<newline>''
     @ fmt ''ur:'' 10 @ ''  '' @ str (PyDM (map (\<lambda>x. [x]) (ur self))) @ ''\<newline>''
     @ fmt ''waypoints:'' 20 @ ''  ''
         @ fmt (str (PyList (map ndarray (waypoints self)))) 15 @ ''\<newline>''
     @ fmt ''NMPC rate constraints:'' 20 @ ''  ''
         @ str (PyBool (nmpc_rate_constraints self)) @ ''\<newline>''
     @ ''NLP constants: \<newline>''
     @ ''-----------------------------------------------\<newline>''
     @ fmt ''nmpc horizon:'' 20 @ ''  '' @ fmt (str (PyInt (mpc_horizon self))) 15 @ ''\<newline>''
     @ fmt ''spectral order:'' 20 @ ''  '' @ fmt (str (PyInt (spectral_order self))) 15 @ ''\<newline>''
     @ fmt ''size of intervals:'' 20 @ ''  ''
         @ fmt (str (PyFloat (finite_interval_size self))) 15 @ ''\<newline>''
     @ fmt ''num intervals:'' 20 @ ''  '' @ fmt (str (PyInt (number_intervals self))) 15 @ ''\<newline>''
     @ fmt ''collocation deg:'' 20 @ ''  ''
         @ fmt (str (PyInt (collocation_degree self))) 15 @ ''\<newline>''
     @ ''IPOPT settings: \<newline>''
     @ ''-----------------------------------------------\<newline>''
     @ str (PyDict (ipopt_settings self))"

section \<open>The dynamics model\<close>

text \<open>
  \<open>state = ca.vertcat(p, v, q, w)\<close>: the thirteen components in one column, read below
  by index.
\<close>

fun vertcat :: "vec3 \<Rightarrow> vec3 \<Rightarrow> vec4 \<Rightarrow> vec3 \<Rightarrow> real list" where
  "vertcat (p0, p1, p2) (v0, v1, v2) (q0, q1, q2, q3) (w0, w1, w2) =
     [p0, p1, p2, v0, v1, v2, q0, q1, q2, q3, w0, w1, w2]"

text \<open>The slice \<open>state[6:10]\<close>.\<close>

definition slice_6_10 :: "real list \<Rightarrow> vec4" where
  "slice_6_10 state = (state ! 6, state ! 7, state ! 8, state ! 9)"

text \<open>
  An expression of the model is modelled by its value at a state and a control. The
  four right-hand sides of a model, at one state and control; a right-hand side that
  divides is \<open>None\<close> where the divisor is zero.
\<close>

record rhs =
  rhs_p :: vec3
  rhs_v :: "vec3 option"
  rhs_q :: "vec4 option"
  rhs_w :: "vec3 option"

fun F_of :: "Constants \<Rightarrow> vec4 \<Rightarrow> real" where
  "F_of mc (u0, u1, u2, u3) = a mc * u2\<^sup>2 + b mc * u2 + c mc"

fun M_of :: "Constants \<Rightarrow> vec4 \<Rightarrow> real" where
  "M_of mc (u0, u1, u2, u3) = d mc * Izz mc * u3"

fun F_vector :: "Constants \<Rightarrow> vec4 \<Rightarrow> vec3" where
  "F_vector mc (u0, u1, u2, u3) =
     scale3 (F_of mc (u0, u1, u2, u3))
       (sin ((pi / 180) * u1),
        - sin ((pi / 180) * u0) * cos ((pi / 180) * u1),
        cos ((pi / 180) * u0) * cos ((pi / 180) * u1))"

definition roll_moment :: "Constants \<Rightarrow> vec4 \<Rightarrow> vec3" where
  "roll_moment mc u = (0, 0, M_of mc u)"

definition M_vector :: "Constants \<Rightarrow> vec4 \<Rightarrow> vec3" where
  "M_vector mc u = add3 (cross (moment_arm mc) (F_vector mc u)) (roll_moment mc u)"

definition r_b2w :: "real list \<Rightarrow> mat3" where
  "r_b2w state =
     ((1 - 2 * ((state ! 7)\<^sup>2 + (state ! 8)\<^sup>2),
       2 * (state ! 6 * state ! 7 - state ! 8 * state ! 9),
       2 * (state ! 6 * state ! 8 + state ! 7 * state ! 9)),
      (2 * (state ! 6 * state ! 7 + state ! 8 * state ! 9),
       1 - 2 * ((state ! 6)\<^sup>2 + (state ! 8)\<^sup>2),
       2 * (state ! 7 * state ! 8 - state ! 6 * state ! 9)),
      (2 * (state ! 6 * state ! 8 - state ! 7 * state ! 9),
       2 * (state ! 7 * state ! 8 + state ! 6 * state ! 9),
       1 - 2 * ((state ! 6)\<^sup>2 + (state ! 7)\<^sup>2)))"

definition Q_omega :: "real list \<Rightarrow> mat4" where
  "Q_omega state =
     ((0, state ! 12, - state ! 11, state ! 10),
      (- state ! 12, 0, state ! 10, state ! 11),
      (state ! 11, - state ! 10, 0, state ! 12),
      (- state ! 10, - state ! 11, - state ! 12, 0))"

text \<open>
  \<open>DroneModel.__init__\<close>: the right-hand sides set for \<open>p\<close>, \<open>v\<close>, \<open>q\<close> and \<open>w\<close>, at the
  state \<open>(p, v, q, w)\<close> and the control \<open>u\<close>, for the registry \<open>mc\<close>.
\<close>

definition DroneModel :: "Constants \<Rightarrow> vec3 \<Rightarrow> vec3 \<Rightarrow> vec4 \<Rightarrow> vec3 \<Rightarrow> vec4 \<Rightarrow> rhs" where
  "DroneModel mc p v q w u =
     (let state = vertcat p v q w;
          I_mat = ca_diag (I_diag mc);
          angular_momentum = mtimes3 I_mat w;
          q_full = slice_6_10 state;
          q_full = vdiv4 q_full (norm_2 q_full)
      in \<lparr> rhs_p = v,
           rhs_v = map_option (\<lambda>acc. add3 acc (g mc))
                     (vdiv3 (mtimes3 (r_b2w state) (F_vector mc u)) (m mc)),
           rhs_q = map_option (mtimes4 (mscale4 0.5 (Q_omega state))) q_full,
           rhs_w = ca_solve I_mat (sub3 (M_vector mc u) (cross w angular_momentum)) \<rparr>)"

section \<open>The equations as the specification writes them\<close>

text \<open>Degrees to radians.\<close>

definition rad :: "real \<Rightarrow> real" where
  "rad x = pi * x / 180"

text \<open>
  The standard rotation matrix of a quaternion with vector part \<open>(q0, q1, q2)\<close> and
  scalar part \<open>q3\<close>, on the components as they are (not normalised).
\<close>

fun R_of_q :: "vec4 \<Rightarrow> mat3" where
  "R_of_q (q0, q1, q2, q3) =
     ((1 - 2 * (q1\<^sup>2 + q2\<^sup>2), 2 * (q0 * q1 - q2 * q3), 2 * (q0 * q2 + q1 * q3)),
      (2 * (q0 * q1 + q2 * q3), 1 - 2 * (q0\<^sup>2 + q2\<^sup>2), 2 * (q1 * q2 - q0 * q3)),
      (2 * (q0 * q2 - q1 * q3), 2 * (q1 * q2 + q0 * q3), 1 - 2 * (q0\<^sup>2 + q1\<^sup>2)))"

text \<open>The body-frame thrust vector of the two-axis gimbal.\<close>

fun F_vec :: "Constants \<Rightarrow> vec4 \<Rightarrow> vec3" where
  "F_vec mc (u0, u1, u2, u3) =
     (let F = a mc * u2\<^sup>2 + b mc * u2 + c mc
      in (F * sin (rad u1),
          F * (- sin (rad u0) * cos (rad u1)),
          F * (cos (rad u0) * cos (rad u1))))"

text \<open>The net moment: the thrust offset from the centre of mass, plus the yaw moment.\<close>

fun M_vec :: "Constants \<Rightarrow> vec4 \<Rightarrow> vec3" where
  "M_vec mc (u0, u1, u2, u3) =
     add3 (cross (moment_arm mc) (F_vec mc (u0, u1, u2, u3))) (0, 0, d mc * Izz mc * u3)"

section \<open>Evaluation in double precision\<close>

text \<open>
  The engine evaluates the expressions of the model on IEEE 754 binary64 numbers. Where a
  property depends on the rounding, the evaluation is modelled on these: a double is a
  finite number (given by its real value), an infinity (\<open>True\<close> for the negative one) or
  NaN. The two zeros are not told apart.
\<close>

datatype double = Num real | Infty bool | NaN

type_synonym dvec4 = "double \<times> double \<times> double \<times> double"

text \<open>The integer nearest to a real number, a tie going to the even one.\<close>

definition round_even :: "real \<Rightarrow> int" where
  "round_even y =
     (let n = \<lfloor>y\<rfloor>; r = y - of_int n
      in if r < 1 / 2 then n else if 1 / 2 < r then n + 1 else if even n then n else n + 1)"

text \<open>
  The distance between neighbouring doubles around a real number: 53 significant bits
  from the binary exponent of the number, and the fixed distance \<open>2\<^sup>-\<^sup>1\<^sup>0\<^sup>7\<^sup>4\<close> of the
  subnormal numbers below \<open>2\<^sup>-\<^sup>1\<^sup>0\<^sup>2\<^sup>2\<close>.
\<close>

definition quantum :: "real \<Rightarrow> real" where
  "quantum y =
     (if \<bar>y\<bar> < 1 / 2 ^ 1022 then 1 / 2 ^ 1074 else 2 powr (of_int \<lfloor>log 2 \<bar>y\<bar>\<rfloor> - 52))"

text \<open>
  Rounding of a real result to a double: to the nearest double, ties to even, and to an
  infinity when the rounded value reaches \<open>2\<^sup>1\<^sup>0\<^sup>2\<^sup>4\<close>.
\<close>

definition fl :: "real \<Rightarrow> double" where
  "fl y =
     (let r = quantum y * of_int (round_even (y / quantum y))
      in if 2 ^ 1024 \<le> \<bar>r\<bar> then Infty (y < 0) else Num r)"

text \<open>The arithmetic of doubles: the exact result, rounded, and the rules of the special values.\<close>

fun fmul :: "double \<Rightarrow> double \<Rightarrow> double" where
  "fmul (Num y) (Num z) = fl (y * z)"
| "fmul (Num y) (Infty s) = (if y = 0 then NaN else Infty (s \<noteq> (y < 0)))"
| "fmul (Infty s) (Num z) = (if z = 0 then NaN else Infty (s \<noteq> (z < 0)))"
| "fmul (Infty s) (Infty t) = Infty (s \<noteq> t)"
| "fmul NaN z = NaN"
| "fmul y NaN = NaN"

fun fadd :: "double \<Rightarrow> double \<Rightarrow> double" where
  "fadd (Num y) (Num z) = fl (y + z)"
| "fadd (Num y) (Infty s) = Infty s"
| "fadd (Infty s) (Num z) = Infty s"
| "fadd (Infty s) (Infty t) = (if s = t then Infty s else NaN)"
| "fadd NaN z = NaN"
| "fadd y NaN = NaN"

fun fsqrt :: "double \<Rightarrow> double" where
  "fsqrt (Num y) = (if y < 0 then NaN else fl (sqrt y))"
| "fsqrt (Infty s) = (if s then NaN else Infty False)"
| "fsqrt NaN = NaN"

fun fdiv :: "double \<Rightarrow> double \<Rightarrow> double" where
  "fdiv (Num y) (Num z) =
     (if z = 0 then (if y = 0 then NaN else Infty (y < 0)) else fl (y / z))"
| "fdiv (Num y) (Infty s) = Num 0"
| "fdiv (Infty s) (Num z) = Infty (s \<noteq> (z < 0))"
| "fdiv (Infty s) (Infty t) = NaN"
| "fdiv NaN z = NaN"
| "fdiv y NaN = NaN"

text \<open>\<open>ca.norm_2\<close> of a 4-vector of doubles: the square root of the sum of the squares.\<close>

fun norm_2_double :: "dvec4 \<Rightarrow> double" where
  "norm_2_double (y0, y1, y2, y3) =
     fsqrt (fadd (fadd (fadd (fmul y0 y0) (fmul y1 y1)) (fmul y2 y2)) (fmul y3 y3))"

text \<open>
  Division of a vector of doubles by a scalar. The source has no test of the divisor: a
  division by zero, which yields infinities and NaN, is the result \<open>None\<close>.
\<close>

fun vdiv4_double :: "dvec4 \<Rightarrow> double \<Rightarrow> dvec4 option" where
  "vdiv4_double (y0, y1, y2, y3) k =
     (if k = Num 0 then None else Some (fdiv y0 k, fdiv y1 k, fdiv y2 k, fdiv y3 k))"

text \<open>The components of a state are finite doubles.\<close>

fun doubles4 :: "vec4 \<Rightarrow> dvec4" where
  "doubles4 (y0, y1, y2, y3) = (Num y0, Num y1, Num y2, Num y3)"

text \<open>
  The two lines \<open>q_full = state[6:10]\<close> and \<open>q_full = q_full / ca.norm_2(q_full)\<close> of the
  model, evaluated on doubles. The right-hand side for \<open>q\<close> is a matrix applied to this
  vector, so it is defined where this vector is.
\<close>

definition q_full_double :: "real list \<Rightarrow> dvec4 option" where
  "q_full_double state =
     (let q_full = doubles4 (slice_6_10 state)
      in vdiv4_double q_full (norm_2_double q_full))"

text \<open>A double that is zero or at least the smallest positive double, or plus infinity.\<close>

fun nonneg_double :: "double \<Rightarrow> bool" where
  "nonneg_double (Num r) = (r = 0 \<or> 1 / 2 ^ 1074 \<le> r)"
| "nonneg_double (Infty s) = (\<not> s)"
| "nonneg_double NaN = False"

section \<open>Construction of the registry\<close>

lemma Constants_init_succeeds: "\<exists>mc. Constants_init = Some mc"
  by (simp add: Constants_init_def Let_def)

lemma Constants_init_fields:
  assumes "Constants_init = Some mc"
  shows "m mc = 1.5" "a mc = 1.327 * 1.6" "b mc = 0.284 * 1.6" "c mc = - 0.015 * 1.6"
    "hover_thrust mc = 2.529" "g mc = (0, 0, - 9.81)"
    "Ixx mc = 0.06" "Iyy mc = 0.06" "Izz mc = 0.012"
    "I mc = ((0.06, 0, 0), (0, 0.06, 0), (0, 0, 0.012))" "I_diag mc = (0.06, 0.06, 0.012)"
    "I_inv mc = ((1 / 0.06, 0, 0), (0, 1 / 0.06, 0), (0, 0, 1 / 0.012))"
    "d mc = 0.1" "moment_arm mc = (0, 0, - 0.09)"
  using assms by (auto simp add: Constants_init_def Let_def)

lemma Constants_init_inverse:
  assumes "Constants_init = Some mc"
  shows "linalg_inv (I mc) = Some (I_inv mc)" "ca_diag (I_diag mc) = I mc"
    "I mc = ca_diag (Ixx mc, Iyy mc, Izz mc)"
  using assms by (auto simp add: Constants_init_def Let_def)

section \<open>The linear solve and the inverse\<close>

text \<open>The solution by Cramer's rule is the inverse matrix applied to the right-hand side.\<close>

lemma ca_solve_eq_inv:
  "ca_solve A y = map_option (\<lambda>B. mtimes3 B y) (linalg_inv A)"
proof -
  obtain a00 a01 a02 a10 a11 a12 a20 a21 a22
    where A: "A = ((a00, a01, a02), (a10, a11, a12), (a20, a21, a22))"
    by (cases A rule: det3.cases)
  obtain y0 y1 y2 where y: "y = (y0, y1, y2)"
    by (metis prod_cases3)
  show ?thesis
  proof (cases "det3 A = 0")
    case True
    then show ?thesis by (simp add: A y Let_def)
  next
    case False
    then show ?thesis
      unfolding A y
      apply (simp add: Let_def)
      apply (simp only: add_divide_distrib[symmetric])
      apply (intro conjI arg_cong2[where f="(/)"] refl)
      apply (simp_all add: algebra_simps)
      done
  qed
qed

text \<open>What \<open>linalg_inv\<close> returns is a right inverse.\<close>

lemma linalg_inv_sound: "linalg_inv A = Some B \<Longrightarrow> mmul3 A B = eye3"
proof -
  assume h: "linalg_inv A = Some B"
  obtain a00 a01 a02 a10 a11 a12 a20 a21 a22
    where A: "A = ((a00, a01, a02), (a10, a11, a12), (a20, a21, a22))"
    by (cases A rule: det3.cases)
  define k where "k = det3 A"
  have k: "k \<noteq> 0"
    using h unfolding k_def A by (auto simp add: Let_def split: if_splits)
  have kd: "k = a00 * (a11 * a22 - a12 * a21) - a01 * (a10 * a22 - a12 * a20)
       + a02 * (a10 * a21 - a11 * a20)"
    by (simp add: k_def A)
  have B: "B = (div3 (a11 * a22 - a12 * a21, a02 * a21 - a01 * a22, a01 * a12 - a02 * a11) k,
         div3 (a12 * a20 - a10 * a22, a00 * a22 - a02 * a20, a02 * a10 - a00 * a12) k,
         div3 (a10 * a21 - a11 * a20, a01 * a20 - a00 * a21, a00 * a11 - a01 * a10) k)"
    using h k unfolding A k_def by (simp add: Let_def split: if_splits)
  have one: "\<And>n. n = k \<Longrightarrow> n / k = 1"
    using k by simp
  have zero: "\<And>n. n = 0 \<Longrightarrow> n / k = 0"
    by simp
  show ?thesis
    unfolding A B eye3_def
    apply simp
    apply (simp only: add_divide_distrib[symmetric])
    apply (intro conjI)
            apply (rule one, simp add: kd algebra_simps)
           apply (rule zero, simp add: algebra_simps)
          apply (rule zero, simp add: algebra_simps)
         apply (rule zero, simp add: algebra_simps)
        apply (rule one, simp add: kd algebra_simps)
       apply (rule zero, simp add: algebra_simps)
      apply (rule zero, simp add: algebra_simps)
     apply (rule zero, simp add: algebra_simps)
    apply (rule one, simp add: kd algebra_simps)
    done
qed

section \<open>The model reads the state by index\<close>

lemma vertcat_nth:
  "vertcat p v (q0, q1, q2, q3) (w0, w1, w2) ! 6 = q0"
  "vertcat p v (q0, q1, q2, q3) (w0, w1, w2) ! 7 = q1"
  "vertcat p v (q0, q1, q2, q3) (w0, w1, w2) ! 8 = q2"
  "vertcat p v (q0, q1, q2, q3) (w0, w1, w2) ! 9 = q3"
  "vertcat p v (q0, q1, q2, q3) (w0, w1, w2) ! 10 = w0"
  "vertcat p v (q0, q1, q2, q3) (w0, w1, w2) ! 11 = w1"
  "vertcat p v (q0, q1, q2, q3) (w0, w1, w2) ! 12 = w2"
  by (cases p; cases v; simp)+

lemma r_b2w_vertcat: "r_b2w (vertcat p v q w) = R_of_q q"
  by (cases q; cases w) (simp add: r_b2w_def vertcat_nth)

lemma slice_vertcat: "slice_6_10 (vertcat p v q w) = q"
  by (cases q; cases w) (simp add: slice_6_10_def vertcat_nth)

lemma F_vector_eq: "F_vector mc u = F_vec mc u"
  by (cases u) (simp add: rad_def Let_def)

lemma M_vector_eq: "M_vector mc u = M_vec mc u"
  by (cases u)
    (simp add: M_vector_def roll_moment_def F_vector_eq del: F_vector.simps F_vec.simps)

lemma rhs_v_closed_form:
  "m mc \<noteq> 0 \<Longrightarrow> rhs_v (DroneModel mc p v q w u)
     = Some (add3 (div3 (mtimes3 (R_of_q q) (F_vec mc u)) (m mc)) (g mc))"
  by (simp add: DroneModel_def Let_def r_b2w_vertcat F_vector_eq
      del: F_vector.simps F_vec.simps)


section \<open>Norms of quaternions\<close>



lemma unit_sq:
  "norm_2 (q0, q1, q2, q3) = 1 \<Longrightarrow> q3 * q3 = 1 - q0 * q0 - q1 * q1 - q2 * q2"
proof -
  assume "norm_2 (q0, q1, q2, q3) = 1"
  then have "q0\<^sup>2 + q1\<^sup>2 + q2\<^sup>2 + q3\<^sup>2 = 1"
    by simp
  then show ?thesis
    by (simp add: power2_eq_square)
qed






text \<open>The rotation matrix of a unit quaternion is orthogonal.\<close>

lemma R_of_q_orthogonal:
  assumes "norm_2 q = 1"
  shows "mmul3 (transpose3 (R_of_q q)) (R_of_q q) = eye3"
proof -
  obtain q0 q1 q2 q3 where q: "q = (q0, q1, q2, q3)"
    by (cases q) auto
  have s: "q3 * q3 = 1 - q0 * q0 - q1 * q1 - q2 * q2"
    using assms unfolding q by (rule unit_sq)
  show ?thesis
    unfolding q eye3_def
    apply (simp add: power2_eq_square)
    apply (intro conjI)
    using s apply algebra+
    done
qed

section \<open>Rounding to doubles\<close>

lemma round_even_eq_0: "round_even y = 0 \<longleftrightarrow> \<bar>y\<bar> \<le> 1 / 2"
proof -
  define n where "n = \<lfloor>y\<rfloor>"
  have lo: "of_int n \<le> y" and hi: "y < of_int n + 1"
    unfolding n_def by linarith+
  have re: "round_even y =
      (if y - of_int n < 1 / 2 then n else if 1 / 2 < y - of_int n then n + 1
       else if even n then n else n + 1)"
    by (simp add: round_even_def Let_def n_def)
  show ?thesis
  proof (cases "n = 0 \<or> n = - 1")
    case True
    then show ?thesis
      using lo hi unfolding re by auto
  next
    case False
    then have "n \<le> - 2 \<or> 1 \<le> n"
      by linarith
    then have far: "y < - 1 \<or> 1 \<le> y"
      using lo hi by (auto simp: algebra_simps)
    have "round_even y \<noteq> 0"
      using False unfolding re by auto
    moreover have "\<not> \<bar>y\<bar> \<le> 1 / 2"
      using far by linarith
    ultimately show ?thesis
      by simp
  qed
qed

lemma round_even_nonneg: "0 \<le> y \<Longrightarrow> 0 \<le> round_even y"
proof -
  assume "0 \<le> y"
  then have "0 \<le> \<lfloor>y\<rfloor>"
    by simp
  then show ?thesis
    by (simp add: round_even_def Let_def)
qed

lemma quantum_ge: "1 / 2 ^ 1074 \<le> quantum y"
proof (cases "\<bar>y\<bar> < 1 / 2 ^ 1022")
  case True
  then show ?thesis
    by (simp add: quantum_def)
next
  case False
  then have ge: "1 / 2 ^ 1022 \<le> \<bar>y\<bar>"
    by simp
  have p: "(2::real) powr (- 1022) = 1 / 2 ^ 1022"
    by (simp add: powr_minus_divide)
  have "(0::real) < 1 / 2 ^ 1022"
    by simp
  then have "0 < \<bar>y\<bar>"
    using ge by linarith
  then have "log 2 (2 powr (- 1022)) \<le> log 2 \<bar>y\<bar>"
    using ge unfolding p by (subst log_le_cancel_iff) simp_all
  then have "- 1022 \<le> log 2 \<bar>y\<bar>"
    by simp
  then have "- 1022 \<le> \<lfloor>log 2 \<bar>y\<bar>\<rfloor>"
    by linarith
  then have "(- 1074 :: real) \<le> of_int \<lfloor>log 2 \<bar>y\<bar>\<rfloor> - 52"
    by linarith
  then have "(2::real) powr (- 1074) \<le> 2 powr (of_int \<lfloor>log 2 \<bar>y\<bar>\<rfloor> - 52)"
    by (subst powr_le_cancel_iff) simp_all
  moreover have "(2::real) powr (- 1074) = 1 / 2 ^ 1074"
    by (simp add: powr_minus_divide)
  ultimately show ?thesis
    using False by (simp add: quantum_def)
qed

lemma quantum_pos: "0 < quantum y"
proof -
  have "(0::real) < 1 / 2 ^ 1074"
    by simp
  then show ?thesis
    using quantum_ge[of y] by linarith
qed

text \<open>In the normal range the quantum is far below the number itself.\<close>

lemma quantum_normal:
  assumes "1 / 2 ^ 1022 \<le> \<bar>y\<bar>"
  shows "quantum y < \<bar>y\<bar>"
proof -
  have "(0::real) < 1 / 2 ^ 1022"
    by simp
  then have pos: "0 < \<bar>y\<bar>"
    using assms by linarith
  have "of_int \<lfloor>log 2 \<bar>y\<bar>\<rfloor> - 52 < log 2 \<bar>y\<bar>"
    by linarith
  then have "2 powr (of_int \<lfloor>log 2 \<bar>y\<bar>\<rfloor> - 52) < 2 powr (log 2 \<bar>y\<bar>)"
    by (subst powr_less_cancel_iff) simp_all
  also have "\<dots> = \<bar>y\<bar>"
    using pos by simp
  finally show ?thesis
    using assms by (simp add: quantum_def)
qed

lemma fl_eq_zero: "fl y = Num 0 \<longleftrightarrow> \<bar>y\<bar> \<le> 1 / 2 ^ 1075"
proof -
  have qp: "0 < quantum y"
    by (rule quantum_pos)
  have "fl y = Num 0 \<longleftrightarrow> round_even (y / quantum y) = 0"
    using qp by (auto simp add: fl_def Let_def)
  also have "\<dots> \<longleftrightarrow> \<bar>y / quantum y\<bar> \<le> 1 / 2"
    by (rule round_even_eq_0)
  also have "\<dots> \<longleftrightarrow> \<bar>y\<bar> / quantum y \<le> 1 / 2"
    using qp by simp
  also have "\<dots> \<longleftrightarrow> \<bar>y\<bar> \<le> quantum y / 2"
    using qp by (simp add: field_simps)
  also have "\<dots> \<longleftrightarrow> \<bar>y\<bar> \<le> 1 / 2 ^ 1075"
  proof (cases "\<bar>y\<bar> < 1 / 2 ^ 1022")
    case True
    then show ?thesis
      by (simp add: quantum_def)
  next
    case False
    then have ge: "1 / 2 ^ 1022 \<le> \<bar>y\<bar>"
      by simp
    have "quantum y < \<bar>y\<bar>"
      by (rule quantum_normal[OF ge])
    then have "\<not> \<bar>y\<bar> \<le> quantum y / 2"
      using qp by linarith
    moreover have "(1::real) / 2 ^ 1075 < 1 / 2 ^ 1022"
      by simp
    then have "\<not> \<bar>y\<bar> \<le> 1 / 2 ^ 1075"
      using ge by linarith
    ultimately show ?thesis
      by simp
  qed
  finally show ?thesis .
qed

lemma fl_nonneg:
  assumes "0 \<le> y"
  shows "nonneg_double (fl y)"
proof -
  define k where "k = round_even (y / quantum y)"
  have qp: "0 < quantum y"
    by (rule quantum_pos)
  have k0: "0 \<le> k"
    unfolding k_def using assms qp by (intro round_even_nonneg) simp
  have r: "quantum y * of_int k = 0 \<or> 1 / 2 ^ 1074 \<le> quantum y * of_int k"
  proof (cases "k = 0")
    case True
    then show ?thesis
      by simp
  next
    case False
    then have "1 \<le> k"
      using k0 by linarith
    then have "(1::real) \<le> of_int k"
      by simp
    then have "quantum y * 1 \<le> quantum y * of_int k"
      using qp by (intro mult_left_mono) simp_all
    then have "quantum y \<le> quantum y * of_int k"
      by (simp only: mult_1_right)
    then have "1 / 2 ^ 1074 \<le> quantum y * of_int k"
      by (rule order_trans[OF quantum_ge])
    then show ?thesis
      by (rule disjI2)
  qed
  show ?thesis
    using r assms by (simp add: fl_def Let_def k_def[symmetric])
qed

lemma fmul_square: "nonneg_double (fmul (Num y) (Num y))"
  by (simp add: fl_nonneg)

lemma fmul_square_zero: "fmul (Num y) (Num y) = Num 0 \<longleftrightarrow> y\<^sup>2 \<le> 1 / 2 ^ 1075"
  by (simp add: fl_eq_zero power2_eq_square)

lemma fadd_nonneg:
  assumes "nonneg_double A" "nonneg_double B"
  shows "nonneg_double (fadd A B)"
proof (cases A)
  case (Num r)
  note A = this
  show ?thesis
  proof (cases B)
    case (Num s)
    have c: "(0::real) < 1 / 2 ^ 1074"
      by simp
    have "0 \<le> r + s"
      using assms c unfolding A Num nonneg_double.simps by linarith
    then show ?thesis
      unfolding A Num by (simp add: fl_nonneg)
  next
    case (Infty s)
    then show ?thesis
      using assms A by simp
  next
    case NaN
    then show ?thesis
      using assms by simp
  qed
next
  case (Infty s)
  then show ?thesis
    using assms by (cases B) auto
next
  case NaN
  then show ?thesis
    using assms by simp
qed

lemma fadd_zero:
  assumes "nonneg_double A" "nonneg_double B"
  shows "fadd A B = Num 0 \<longleftrightarrow> A = Num 0 \<and> B = Num 0"
proof (cases A)
  case (Num r)
  note A = this
  show ?thesis
  proof (cases B)
    case (Num s)
    define c1 :: real where "c1 = 1 / 2 ^ 1075"
    define c2 :: real where "c2 = 1 / 2 ^ 1074"
    have c: "0 < c1" "c1 < c2"
      unfolding c1_def c2_def by simp_all
    have r: "r = 0 \<or> c2 \<le> r" and s: "s = 0 \<or> c2 \<le> s"
      using assms unfolding A Num c2_def by simp_all
    have "\<bar>r + s\<bar> \<le> c1 \<longleftrightarrow> r = 0 \<and> s = 0"
      using r s c by auto
    then show ?thesis
      unfolding A Num c1_def by (simp add: fl_eq_zero)
  next
    case (Infty s)
    then show ?thesis
      using A by simp
  next
    case NaN
    then show ?thesis
      using assms by simp
  qed
next
  case (Infty s)
  then show ?thesis
    using assms by (cases B) auto
next
  case NaN
  then show ?thesis
    using assms by simp
qed

lemma fsqrt_zero:
  assumes "nonneg_double A"
  shows "fsqrt A = Num 0 \<longleftrightarrow> A = Num 0"
proof (cases A)
  case (Num r)
  define c1 :: real where "c1 = 1 / 2 ^ 1075"
  define c2 :: real where "c2 = 1 / 2 ^ 1074"
  have c: "0 < c1" "c1\<^sup>2 < c2"
    unfolding c1_def c2_def by (simp_all add: power2_eq_square)
  have r: "r = 0 \<or> c2 \<le> r"
    using assms unfolding Num c2_def by simp
  have "0 < c2"
    unfolding c2_def by simp
  then have r0: "0 \<le> r"
    using r by linarith
  have "\<bar>sqrt r\<bar> \<le> c1 \<longleftrightarrow> r = 0"
  proof (cases "r = 0")
    case True
    then show ?thesis
      using c by simp
  next
    case False
    then have "c1\<^sup>2 < r"
      using r c by linarith
    then have "c1 < sqrt r"
      by (rule real_less_rsqrt)
    then show ?thesis
      using False by simp
  qed
  then show ?thesis
    using r0 unfolding Num c1_def by (simp add: fl_eq_zero)
next
  case (Infty s)
  then show ?thesis
    by simp
next
  case NaN
  then show ?thesis
    by simp
qed

lemma norm_2_double_zero:
  "norm_2_double (Num q0, Num q1, Num q2, Num q3) = Num 0 \<longleftrightarrow>
     q0\<^sup>2 \<le> 1 / 2 ^ 1075 \<and> q1\<^sup>2 \<le> 1 / 2 ^ 1075 \<and> q2\<^sup>2 \<le> 1 / 2 ^ 1075 \<and> q3\<^sup>2 \<le> 1 / 2 ^ 1075"
proof -
  let ?s0 = "fmul (Num q0) (Num q0)" and ?s1 = "fmul (Num q1) (Num q1)"
  let ?s2 = "fmul (Num q2) (Num q2)" and ?s3 = "fmul (Num q3) (Num q3)"
  have n1: "nonneg_double (fadd ?s0 ?s1)"
    by (intro fadd_nonneg fmul_square)
  have n2: "nonneg_double (fadd (fadd ?s0 ?s1) ?s2)"
    by (intro fadd_nonneg fmul_square)
  have n3: "nonneg_double (fadd (fadd (fadd ?s0 ?s1) ?s2) ?s3)"
    by (intro fadd_nonneg fmul_square)
  have "norm_2_double (Num q0, Num q1, Num q2, Num q3) = Num 0 \<longleftrightarrow>
      fadd (fadd (fadd ?s0 ?s1) ?s2) ?s3 = Num 0"
    unfolding norm_2_double.simps by (rule fsqrt_zero[OF n3])
  also have "\<dots> \<longleftrightarrow> fadd (fadd ?s0 ?s1) ?s2 = Num 0 \<and> ?s3 = Num 0"
    by (rule fadd_zero[OF n2 fmul_square])
  also have "\<dots> \<longleftrightarrow> (fadd ?s0 ?s1 = Num 0 \<and> ?s2 = Num 0) \<and> ?s3 = Num 0"
    by (simp only: fadd_zero[OF n1 fmul_square])
  also have "\<dots> \<longleftrightarrow> ((?s0 = Num 0 \<and> ?s1 = Num 0) \<and> ?s2 = Num 0) \<and> ?s3 = Num 0"
    by (simp only: fadd_zero[OF fmul_square fmul_square])
  finally show ?thesis
    by (simp only: fmul_square_zero conj_assoc)
qed

lemma fl_zero: "fl 0 = Num 0"
  by (simp add: fl_eq_zero)

lemma round_even_of_int: "round_even (of_int n) = n"
  by (simp add: round_even_def)

lemma round_even_numeral: "round_even (numeral n) = numeral n"
  using round_even_of_int[of "numeral n"] by simp

lemma fl_one: "fl 1 = Num 1"
proof -
  have q: "quantum 1 = 1 / 2 ^ 52"
    by (simp add: quantum_def powr_minus_divide)
  have "quantum 1 * of_int (round_even (1 / quantum 1)) = 1"
    unfolding q by (simp add: round_even_numeral)
  then show ?thesis
    by (simp add: fl_def Let_def)
qed

lemma q_full_double_identity:
  "q_full_double (vertcat (0, 0, 0) (0, 0, 0) (0, 0, 0, 1) (0, 0, 0))
     = Some (Num 0, Num 0, Num 0, Num 1)"
  by (simp only: q_full_double_def Let_def slice_vertcat) (simp add: fl_zero fl_one)

text \<open>The normalisation divides by zero exactly when the square of every component rounds to zero.\<close>

lemma q_full_double_None:
  "(q_full_double (vertcat p v (q0, q1, q2, q3) w) = None) =
     (q0\<^sup>2 \<le> 1 / 2 ^ 1075 \<and> q1\<^sup>2 \<le> 1 / 2 ^ 1075 \<and> q2\<^sup>2 \<le> 1 / 2 ^ 1075 \<and> q3\<^sup>2 \<le> 1 / 2 ^ 1075)"
proof -
  have "(q_full_double (vertcat p v (q0, q1, q2, q3) w) = None) =
      (norm_2_double (Num q0, Num q1, Num q2, Num q3) = Num 0)"
    by (simp add: q_full_double_def Let_def slice_vertcat del: norm_2_double.simps)
  then show ?thesis
    by (simp only: norm_2_double_zero)
qed

section \<open>Translational dynamics\<close>

text \<open>
  C1. For every control \<open>u = (u0, u1, u2, u3)\<close> and every state \<open>(p, v, q, w)\<close>, the
  right-hand side that the model sets for the velocity is \<open>(R(q) F_vec) / m + g\<close>, with
  \<open>R(q)\<close> the standard rotation matrix on the raw components of the quaternion,
  \<open>F_vec\<close> the gimbaled thrust vector of magnitude \<open>a u2\<^sup>2 + b u2 + c\<close>, and \<open>m\<close>, \<open>g\<close>,
  \<open>a\<close>, \<open>b\<close>, \<open>c\<close> the constants of the registry. The division is by a mass that is not
  zero.
\<close>

theorem velocity_rhs_formula:
  "m mc \<noteq> 0 \<Longrightarrow>
     rhs_v (DroneModel mc p v q w u)
       = Some (add3 (div3 (mtimes3 (R_of_q q) (F_vec mc u)) (m mc)) (g mc))"
  by (rule rhs_v_closed_form)

theorem velocity_rhs_formula_witness:
  "\<exists>mc. Constants_init = Some mc \<and> m mc \<noteq> 0
     \<and> rhs_v (DroneModel mc (1, 2, 3) (0, 0, 0) (0, 0, 0, 1) (0, 0, 0) (0, 0, 1, 0))
         = Some (0, 0, - 8.1076)"
proof -
  obtain mc where h: "Constants_init = Some mc"
    using Constants_init_succeeds by blast
  note f = Constants_init_fields[OF h]
  have m0: "m mc \<noteq> 0"
    by (simp add: f(1))
  have "rhs_v (DroneModel mc (1, 2, 3) (0, 0, 0) (0, 0, 0, 1) (0, 0, 0) (0, 0, 1, 0))
         = Some (0, 0, - 8.1076)"
    using velocity_rhs_formula[OF m0, of "(1, 2, 3)" "(0, 0, 0)" "(0, 0, 0, 1)" "(0, 0, 0)"
        "(0, 0, 1, 0)"]
    by (simp add: f rad_def)
  with h m0 show ?thesis
    by blast
qed

text \<open>
  C3. With the literal defaults of the registry, the thrust polynomial at the hover
  throttle command balances the weight \<open>m * 9.81\<close> to within 0.05 N.
\<close>

theorem hover_thrust_balances_weight:
  "\<exists>mc. Constants_init = Some mc
     \<and> \<bar>a mc * (hover_thrust mc)\<^sup>2 + b mc * hover_thrust mc + c mc - m mc * 9.81\<bar> \<le> 0.05"
proof -
  obtain mc where h: "Constants_init = Some mc"
    using Constants_init_succeeds by blast
  have "\<bar>a mc * (hover_thrust mc)\<^sup>2 + b mc * hover_thrust mc + c mc - m mc * 9.81\<bar> \<le> 0.05"
    by (simp add: Constants_init_fields[OF h] power2_eq_square)
  with h show ?thesis
    by blast
qed

text \<open>
  C4. At the identity orientation \<open>(0, 0, 0, 1)\<close>, with zero velocity and zero angular
  velocity, under the control \<open>(0, 0, h, 0)\<close> with \<open>h\<close> the hover throttle constant, the
  translational acceleration of the model is \<open>(0, 0, z)\<close> with
  \<open>z = (a h\<^sup>2 + b h + c) / m - 9.81\<close>, and \<open>z\<close> is within 0.01 of zero for the registry's
  defaults.
\<close>

theorem hover_acceleration_near_zero:
  "\<exists>mc. Constants_init = Some mc
     \<and> rhs_v (DroneModel mc p (0, 0, 0) (0, 0, 0, 1) (0, 0, 0) (0, 0, hover_thrust mc, 0))
         = Some (0, 0,
             (a mc * (hover_thrust mc)\<^sup>2 + b mc * hover_thrust mc + c mc) / m mc - 9.81)
     \<and> \<bar>(a mc * (hover_thrust mc)\<^sup>2 + b mc * hover_thrust mc + c mc) / m mc - 9.81\<bar>
         \<le> 0.01"
proof -
  obtain mc where h: "Constants_init = Some mc"
    using Constants_init_succeeds by blast
  note f = Constants_init_fields[OF h]
  have m0: "m mc \<noteq> 0"
    by (simp add: f(1))
  have "rhs_v (DroneModel mc p (0, 0, 0) (0, 0, 0, 1) (0, 0, 0) (0, 0, hover_thrust mc, 0))
         = Some (0, 0,
             (a mc * (hover_thrust mc)\<^sup>2 + b mc * hover_thrust mc + c mc) / m mc - 9.81)"
    unfolding rhs_v_closed_form[OF m0] by (simp add: f(6) rad_def)
  moreover have
    "\<bar>(a mc * (hover_thrust mc)\<^sup>2 + b mc * hover_thrust mc + c mc) / m mc - 9.81\<bar> \<le> 0.01"
    unfolding f(1-5) by (simp add: power2_eq_square)
  ultimately show ?thesis
    using h by blast
qed

section \<open>Rotational dynamics\<close>

text \<open>
  C2. For every state and control, the right-hand side that the model sets for the
  angular velocity, the linear solve of \<open>I x = M_vec - w \<times> L\<close>, is the inverse of the
  inertia tensor applied to \<open>M_vec - w \<times> L\<close>: here \<open>I = diag(Ixx, Iyy, Izz)\<close> with the
  positive entries of the registry, the inverse is the one the registry holds,
  \<open>M_vec = moment_arm \<times> F_vec + (0, 0, d Izz u3)\<close> and \<open>L = I w\<close>.
\<close>

theorem angular_rhs_solve_is_inverse:
  "\<exists>mc. Constants_init = Some mc \<and> 0 < Ixx mc \<and> 0 < Iyy mc \<and> 0 < Izz mc
     \<and> I mc = ca_diag (Ixx mc, Iyy mc, Izz mc) \<and> linalg_inv (I mc) = Some (I_inv mc)
     \<and> rhs_w (DroneModel mc p v q w u)
         = Some (mtimes3 (I_inv mc) (sub3 (M_vec mc u) (cross w (mtimes3 (I mc) w))))"
proof -
  obtain mc where h: "Constants_init = Some mc"
    using Constants_init_succeeds by blast
  have "rhs_w (DroneModel mc p v q w u)
         = Some (mtimes3 (I_inv mc) (sub3 (M_vec mc u) (cross w (mtimes3 (I mc) w))))"
    by (simp add: DroneModel_def Let_def ca_solve_eq_inv Constants_init_inverse(1,2)[OF h]
        M_vector_eq del: mtimes3.simps sub3.simps cross.simps M_vec.simps)
  moreover have "0 < Ixx mc \<and> 0 < Iyy mc \<and> 0 < Izz mc"
    by (simp add: Constants_init_fields[OF h])
  ultimately show ?thesis
    using h Constants_init_inverse[OF h] by blast
qed

text \<open>
  C7. For the default registry, the inverse that the construction computes is the
  analytic inverse \<open>diag(1/Ixx, 1/Iyy, 1/Izz)\<close>, and the product of the inertia tensor
  with it is the identity matrix: every entry is within \<open>1e-9\<close> of the identity's.
\<close>

theorem inertia_inverse_identity:
  "\<exists>mc. Constants_init = Some mc
     \<and> linalg_inv (I mc) = Some (I_inv mc)
     \<and> I_inv mc = ((1 / Ixx mc, 0, 0), (0, 1 / Iyy mc, 0), (0, 0, 1 / Izz mc))
     \<and> mmul3 (I mc) (I_inv mc) = eye3
     \<and> mdist3 (mmul3 (I mc) (I_inv mc)) eye3 \<le> 1 / 10 ^ 9"
proof -
  obtain mc where h: "Constants_init = Some mc"
    using Constants_init_succeeds by blast
  note f = Constants_init_fields[OF h]
  have inv: "linalg_inv (I mc) = Some (I_inv mc)"
    by (rule Constants_init_inverse(1)[OF h])
  have e: "mmul3 (I mc) (I_inv mc) = eye3"
    by (rule linalg_inv_sound[OF inv])
  have an: "I_inv mc = ((1 / Ixx mc, 0, 0), (0, 1 / Iyy mc, 0), (0, 0, 1 / Izz mc))"
    unfolding f(7-9) by (rule f(12))
  have "mdist3 (mmul3 (I mc) (I_inv mc)) eye3 \<le> 1 / 10 ^ 9"
    unfolding e by (simp add: eye3_def)
  with h inv e an show ?thesis
    by blast
qed

section \<open>Quaternion kinematics\<close>



text \<open>
  C9, as amended. The normalisation \<open>q / norm_2 q\<close> of the quaternion right-hand side has
  no guard. Evaluated on doubles, it divides by zero exactly when the computed norm is
  zero, that is when the square of every component of the quaternion is at most
  \<open>2\<^sup>-\<^sup>1\<^sup>0\<^sup>7\<^sup>5\<close> and so rounds to zero: at \<open>(0, 0, 0, 0)\<close>, and also at quaternions that are
  not zero but whose squares underflow. The division by zero is unreachable under the
  precondition that the square of some component exceeds \<open>2\<^sup>-\<^sup>1\<^sup>0\<^sup>7\<^sup>5\<close>.
\<close>

theorem normalisation_division_by_zero:
  "(q_full_double (vertcat p v (q0, q1, q2, q3) w) = None) =
     (q0\<^sup>2 \<le> 1 / 2 ^ 1075 \<and> q1\<^sup>2 \<le> 1 / 2 ^ 1075 \<and> q2\<^sup>2 \<le> 1 / 2 ^ 1075 \<and> q3\<^sup>2 \<le> 1 / 2 ^ 1075)"
  by (rule q_full_double_None)

text \<open>
  A quaternion part other than zero does not keep the division away from zero: the
  statement fails at the quaternion \<open>(2\<^sup>-\<^sup>6\<^sup>0\<^sup>0, 0, 0, 0)\<close>: its components are doubles,
  it is not zero, and the square \<open>2\<^sup>-\<^sup>1\<^sup>2\<^sup>0\<^sup>0\<close> rounds to zero.
\<close>

theorem nonzero_quaternion_division_by_zero:
  "(1 / 2 ^ 600, 0, 0, 0) \<noteq> (0 :: real, 0 :: real, 0 :: real, 0 :: real)
     \<and> q_full_double (vertcat (0, 0, 0) (0, 0, 0) (1 / 2 ^ 600, 0, 0, 0) (0, 0, 0)) = None"
proof -
  have sq: "((1::real) / 2 ^ 600)\<^sup>2 = 1 / 2 ^ 1200"
    by (simp add: power2_eq_square power_add[symmetric])
  have "(1::real) / 2 ^ 1200 \<le> 1 / 2 ^ 1075"
    by simp
  then have "q_full_double (vertcat (0, 0, 0) (0, 0, 0) (1 / 2 ^ 600, 0, 0, 0) (0, 0, 0)) = None"
    by (simp only: q_full_double_None sq) simp
  then show ?thesis
    by simp
qed



section \<open>The rotation matrix\<close>

text \<open>
  C6. For every unit quaternion \<open>q\<close> (2-norm one), the rotation matrix that the model
  builds from the state is orthogonal: its transpose times itself is the 3x3 identity
  matrix, exactly, in real arithmetic.
\<close>

theorem r_b2w_orthogonal:
  "norm_2 q = 1 \<Longrightarrow>
     mmul3 (transpose3 (r_b2w (vertcat p v q w))) (r_b2w (vertcat p v q w)) = eye3"
  by (simp only: r_b2w_vertcat R_of_q_orthogonal)

theorem r_b2w_orthogonal_witness:
  "norm_2 (1 / 2, 1 / 2, 1 / 2, 1 / 2) = 1
     \<and> mmul3
         (transpose3 (r_b2w (vertcat (0, 0, 0) (0, 0, 0) (1 / 2, 1 / 2, 1 / 2, 1 / 2) (0, 0, 0))))
         (r_b2w (vertcat (0, 0, 0) (0, 0, 0) (1 / 2, 1 / 2, 1 / 2, 1 / 2) (0, 0, 0)))
       = ((1, 0, 0), (0, 1, 0), (0, 0, 1))"
proof -
  have n: "norm_2 (1 / 2, 1 / 2, 1 / 2, 1 / 2) = 1"
    by (simp add: power2_eq_square)
  show ?thesis
    using n r_b2w_orthogonal[OF n, of "(0, 0, 0)" "(0, 0, 0)" "(0, 0, 0)"]
    by (simp only: eye3_def)
qed

section \<open>The textual rendering of the registry\<close>

text \<open>
  C8. The rendering of a registry is not empty and contains the seven section labels
  (general, model, thrust model, mechanical, NMPC, NLP, solver settings) in that order,
  whatever the instance and however the values are printed. The rendering is a function
  of the instance: it changes nothing, and two calls on one instance give one text.
\<close>

theorem repr_sections:
  "Constants_repr str self \<noteq> []
     \<and> (\<exists>s0 s1 s2 s3 s4 s5 s6 s7.
          Constants_repr str self =
            s0 @ ''General constants: \<newline>''
            @ s1 @ ''Model related constants: \<newline>''
            @ s2 @ ''thrust model constants: \<newline>''
            @ s3 @ ''Mechanical and hardware constants: \<newline>''
            @ s4 @ ''NMPC constants: \<newline>''
            @ s5 @ ''NLP constants: \<newline>''
            @ s6 @ ''IPOPT settings: \<newline>''
            @ s7)"
proof
  show "Constants_repr str self \<noteq> []"
    by (simp add: Constants_repr_def)
next
  define s0 where "s0 =
          ''Constants \<newline>'' @ ''---------------------\<newline>''"
  define s1 where "s1 =
          ''-----------------------------------------------\<newline>''
          @ fmt ''flight time:'' 15 @ ''  '' @ fmt (str (PyInt (timelimit self))) 15 @ ''\<newline>''"
  define s2 where "s2 =
          ''-----------------------------------------------\<newline>''
          @ fmt ''m:'' 10 @ ''  '' @ fmt (str (PyFloat (m self))) 15 @ ''\<newline>''
          @ fmt ''l:'' 10 @ ''  '' @ fmt (str (PyFloat (l self))) 15 @ ''\<newline>''
          @ fmt ''gx:'' 10 @ ''  '' @ fmt (str (PyInt (gx self))) 15 @ ''\<newline>''
          @ fmt ''gy:'' 10 @ ''  '' @ fmt (str (PyInt (gy self))) 15 @ ''\<newline>''
          @ fmt ''gz:'' 10 @ ''  '' @ fmt (str (PyFloat (gz self))) 15 @ ''\<newline>''
          @ fmt ''g:'' 10 @ ''  '' @ fmt (str (tolist (g self))) 15 @ ''\<newline>''
          @ fmt ''Ixx:'' 10 @ ''  '' @ fmt (str (PyFloat (Ixx self))) 15 @ ''\<newline>''
          @ fmt ''Iyy:'' 10 @ ''  '' @ fmt (str (PyFloat (Iyy self))) 15 @ ''\<newline>''
          @ fmt ''Izz:'' 10 @ ''  '' @ fmt (str (PyFloat (Izz self))) 15 @ ''\<newline>''
          @ fmt ''moment arm:'' 20 @ ''  '' @ str (tolist (moment_arm self)) @ ''\<newline>''
          @ fmt ''I_inv:'' 20 @ ''  '' @ str (tolist2 (I_inv self)) @ ''\<newline>''"
  define s3 where "s3 =
          ''-----------------------------------------------\<newline>''
          @ fmt ''tcc:'' 10 @ ''  '' @ fmt (str (PyFloat (tcc self))) 15 @ ''\<newline>''
          @ fmt ''a:'' 10 @ ''  '' @ fmt (str (PyFloat (a self))) 15 @ ''\<newline>''
          @ fmt ''b:'' 10 @ ''  '' @ fmt (str (PyFloat (b self))) 15 @ ''\<newline>''
          @ fmt ''c:'' 10 @ ''  '' @ fmt (str (PyFloat (c self))) 15 @ ''\<newline>''
          @ fmt ''d:'' 10 @ ''  '' @ fmt (str (PyFloat (d self))) 15 @ ''\<newline>''"
  define s4 where "s4 =
          ''-----------------------------------------------\<newline>''
          @ fmt ''outer gimbal range:'' 20 @ ''  ''
          @ str (PyList (map PyInt (outer_gimbal_range self))) @ ''\<newline>''
          @ fmt ''inner gimbal range:'' 20 @ ''  ''
          @ str (PyList (map PyFloat (inner_gimbal_range self))) @ ''\<newline>''
          @ fmt ''theta dot max:'' 20 @ ''  '' @ str (PyFloat (theta_dot_constraint self)) @ ''\<newline>''
          @ fmt ''thrust dot max:'' 20 @ ''  '' @ str (PyFloat (thrust_dot_limit self)) @ ''\<newline>''
          @ fmt ''hover thrust:'' 20 @ ''  '' @ str (PyFloat (hover_thrust self)) @ ''\<newline>''
          @ fmt ''max thrust:'' 20 @ ''  '' @ str (PyFloat (prop_thrust_constraint self)) @ ''\<newline>''
          @ fmt ''max diff thrus:'' 20 @ ''  ''
          @ str (PyList (map PyFloat (diff_thrust_constraint self))) @ ''\<newline>''"
  define s5 where "s5 =
          ''-----------------------------------------------\<newline>''
          @ fmt ''dt:'' 10 @ ''  '' @ fmt (str (PyFloat (dt self))) 15 @ ''\<newline>''
          @ fmt ''x0:'' 10 @ ''  '' @ str (PyDM (map (\<lambda>x. [x]) (x0 self))) @ ''\<newline>''
          @ fmt ''Q:'' 10 @ ''  '' @ str (PyDM (Q self)) @ ''\<newline>''
          @ fmt ''R:'' 10 @ ''  '' @ str (PyDM (R self)) @ ''\<newline>''
          @ fmt ''xr:'' 10 @ ''  '' @ str (PyDM (map (\<lambda>x. [x]) (xr self))) @ ''\<newline>''
          @ fmt ''ur:'' 10 @ ''  '' @ str (PyDM (map (\<lambda>x. [x]) (ur self))) @ ''\<newline>''
          @ fmt ''waypoints:'' 20 @ ''  ''
          @ fmt (str (PyList (map ndarray (waypoints self)))) 15 @ ''\<newline>''
          @ fmt ''NMPC rate constraints:'' 20 @ ''  ''
          @ str (PyBool (nmpc_rate_constraints self)) @ ''\<newline>''"
  define s6 where "s6 =
          ''-----------------------------------------------\<newline>''
          @ fmt ''nmpc horizon:'' 20 @ ''  '' @ fmt (str (PyInt (mpc_horizon self))) 15 @ ''\<newline>''
          @ fmt ''spectral order:'' 20 @ ''  '' @ fmt (str (PyInt (spectral_order self))) 15 @ ''\<newline>''
          @ fmt ''size of intervals:'' 20 @ ''  ''
          @ fmt (str (PyFloat (finite_interval_size self))) 15 @ ''\<newline>''
          @ fmt ''num intervals:'' 20 @ ''  '' @ fmt (str (PyInt (number_intervals self))) 15 @ ''\<newline>''
          @ fmt ''collocation deg:'' 20 @ ''  ''
          @ fmt (str (PyInt (collocation_degree self))) 15 @ ''\<newline>''"
  define s7 where "s7 =
          ''-----------------------------------------------\<newline>''
          @ str (PyDict (ipopt_settings self))"
  have "Constants_repr str self =
            s0 @ ''General constants: \<newline>''
            @ s1 @ ''Model related constants: \<newline>''
            @ s2 @ ''thrust model constants: \<newline>''
            @ s3 @ ''Mechanical and hardware constants: \<newline>''
            @ s4 @ ''NMPC constants: \<newline>''
            @ s5 @ ''NLP constants: \<newline>''
            @ s6 @ ''IPOPT settings: \<newline>''
            @ s7"
    unfolding Constants_repr_def s0_def s1_def s2_def s3_def s4_def s5_def s6_def s7_def
    by (simp only: append_assoc)
  then show "\<exists>s0 s1 s2 s3 s4 s5 s6 s7.
          Constants_repr str self =
            s0 @ ''General constants: \<newline>''
            @ s1 @ ''Model related constants: \<newline>''
            @ s2 @ ''thrust model constants: \<newline>''
            @ s3 @ ''Mechanical and hardware constants: \<newline>''
            @ s4 @ ''NMPC constants: \<newline>''
            @ s5 @ ''NLP constants: \<newline>''
            @ s6 @ ''IPOPT settings: \<newline>''
            @ s7"
    by blast
qed

end
